theory Spec2Isabelle
  imports Complex_Main "HOL-Library.Sublist" "HOL-Library.AList" "HOL-Library.Multiset"
begin

section \<open>Strings\<close>

text \<open>
  A JavaScript string is a sequence of UTF-16 code units. The model covers the strings whose
  code units lie in U+0000..U+00FF: a \<^typ>\<open>char\<close> is read as the code unit of that number.
  The three string methods the component calls are written out on that range.
\<close>

definition isWhiteSpace :: "char \<Rightarrow> bool" where
  \<comment> \<open>WhiteSpace and LineTerminator of ECMAScript below U+0100: TAB, LF, VT, FF, CR, SP, NBSP\<close>
  "isWhiteSpace c = (of_char c \<in> {9::nat, 10, 11, 12, 13, 32, 160})"

definition trim :: "string \<Rightarrow> string" where
  \<comment> \<open>\<^verbatim>\<open>String.prototype.trim\<close>\<close>
  "trim s = rev (dropWhile isWhiteSpace (rev (dropWhile isWhiteSpace s)))"

definition toLowerCase_char :: "char \<Rightarrow> char" where
  \<comment> \<open>A..Z and the capital letters U+00C0..U+00DE (U+00D7 is the multiplication sign)\<close>
  "toLowerCase_char c =
     (let n = (of_char c :: nat)
      in if (65 \<le> n \<and> n \<le> 90) \<or> (192 \<le> n \<and> n \<le> 222 \<and> n \<noteq> 215)
         then char_of (n + 32) else c)"

definition toLowerCase :: "string \<Rightarrow> string" where
  \<comment> \<open>\<^verbatim>\<open>String.prototype.toLowerCase\<close>\<close>
  "toLowerCase s = map toLowerCase_char s"

fun startsWith :: "string \<Rightarrow> string \<Rightarrow> bool" where
  "startsWith s [] = True"
| "startsWith [] (c # t) = False"
| "startsWith (d # s) (c # t) = (d = c \<and> startsWith s t)"

fun includes_str :: "string \<Rightarrow> string \<Rightarrow> bool" where
  \<comment> \<open>\<^verbatim>\<open>s.includes(t)\<close>: \<^verbatim>\<open>t\<close> occurs in \<^verbatim>\<open>s\<close> at some position\<close>
  "includes_str [] t = (t = [])"
| "includes_str (d # s) t = (startsWith (d # s) t \<or> includes_str s t)"

subsection \<open>Decimal digits\<close>

definition digit_char :: "nat \<Rightarrow> char" where
  "digit_char d = char_of (48 + d)"

definition isDigit :: "char \<Rightarrow> bool" where
  "isDigit c = (48 \<le> (of_char c :: nat) \<and> (of_char c :: nat) \<le> 57)"

definition digit_val :: "char \<Rightarrow> nat" where
  "digit_val c = of_char c - 48"

fun toString_nat :: "nat \<Rightarrow> string" where
  "toString_nat n =
     (if n < 10 then [digit_char n] else toString_nat (n div 10) @ [digit_char (n mod 10)])"

definition toString :: "int \<Rightarrow> string" where
  \<comment> \<open>\<^verbatim>\<open>Number.prototype.toString\<close> on an integer below \<^verbatim>\<open>1e21\<close> in magnitude\<close>
  "toString i = (if i < 0 then CHR ''-'' # toString_nat (nat (- i)) else toString_nat (nat i))"

section \<open>Data model\<close>

datatype Priority = Low | Medium | High

text \<open>
  A \<^verbatim>\<open>Date\<close> holds a time value: an integral number of milliseconds since the epoch of
  magnitude at most \<^verbatim>\<open>8.64e15\<close>, or NaN (an Invalid Date).
\<close>

datatype Date = TimeValue int | InvalidDate

definition TimeClip :: "int \<Rightarrow> Date" where
  "TimeClip t = (if \<bar>t\<bar> \<le> 8640000000000000 then TimeValue t else InvalidDate)"

text \<open>
  A \<^verbatim>\<open>number\<close> is a real (the rounding of an arithmetic result to a double is left out),
  or NaN, or an infinity. Comparison is the one of JavaScript: every comparison with NaN
  is false.
\<close>

datatype number = Finite real | NaN | PosInfinity | NegInfinity

fun less_number :: "number \<Rightarrow> number \<Rightarrow> bool" where
  \<comment> \<open>\<^verbatim>\<open>x < y\<close>\<close>
  "less_number (Finite a) (Finite b) = (a < b)"
| "less_number NaN y = False"
| "less_number x NaN = False"
| "less_number NegInfinity NegInfinity = False"
| "less_number NegInfinity y = True"
| "less_number x NegInfinity = False"
| "less_number PosInfinity y = False"
| "less_number x PosInfinity = True"

fun plus_number :: "number \<Rightarrow> real \<Rightarrow> number" where
  \<comment> \<open>the sum with a finite number\<close>
  "plus_number (Finite x) k = Finite (x + k)"
| "plus_number NaN k = NaN"
| "plus_number PosInfinity k = PosInfinity"
| "plus_number NegInfinity k = NegInfinity"

text \<open>The interface \<^verbatim>\<open>GroceryItem\<close>. The field \<^verbatim>\<open>id\<close> is \<open>item_id\<close> here.\<close>

record GroceryItem =
  item_id :: string
  name :: string
  category :: string
  quantity :: number
  unit :: string
  completed :: bool
  priority :: Priority
  estimatedPrice :: "number option"
  addedAt :: Date

text \<open>The interface \<^verbatim>\<open>Category\<close>; the icon is kept as its list of Unicode code points.\<close>

record Category =
  category_id :: string
  category_name :: string
  icon :: "nat list"
  color :: string

definition categories :: "Category list" where
  "categories =
    [\<lparr>category_id = ''produce'', category_name = ''Fresh Produce'', icon = [0x1F96C],
      color = ''from-green-400 to-green-600''\<rparr>,
     \<lparr>category_id = ''dairy'', category_name = ''Dairy & Eggs'', icon = [0x1F95B],
      color = ''from-blue-400 to-blue-600''\<rparr>,
     \<lparr>category_id = ''meat'', category_name = ''Meat & Seafood'', icon = [0x1F969],
      color = ''from-red-400 to-red-600''\<rparr>,
     \<lparr>category_id = ''bakery'', category_name = ''Bakery'', icon = [0x1F35E],
      color = ''from-orange-400 to-orange-600''\<rparr>,
     \<lparr>category_id = ''pantry'', category_name = ''Pantry'', icon = [0x1F96B],
      color = ''from-purple-400 to-purple-600''\<rparr>,
     \<lparr>category_id = ''frozen'', category_name = ''Frozen'', icon = [0x1F9CA],
      color = ''from-cyan-400 to-cyan-600''\<rparr>,
     \<lparr>category_id = ''household'', category_name = ''Household'', icon = [0x1F9FD],
      color = ''from-gray-400 to-gray-600''\<rparr>,
     \<lparr>category_id = ''other'', category_name = ''Other'', icon = [0x1F4E6],
      color = ''from-indigo-400 to-indigo-600''\<rparr>]"

datatype ViewMode = ViewCategory | ViewPriority | ViewAll

text \<open>
  The state of the component \<^verbatim>\<open>ModernGroceryList\<close>, one field for each \<^verbatim>\<open>useState\<close>. The form
  fields \<^verbatim>\<open>quantity\<close> and \<^verbatim>\<open>unit\<close> are \<open>form_quantity\<close> and \<open>form_unit\<close> here, the item's
  fields having taken the names.
\<close>

record State =
  items :: "GroceryItem list"
  newItem :: string
  selectedCategory :: string
  selectedPriority :: Priority
  form_quantity :: number
  form_unit :: string
  searchTerm :: string
  filterCategory :: string
  viewMode :: ViewMode
  isDark :: bool
  showAddForm :: bool

definition initial_State :: State where
  "initial_State =
    \<lparr>items = [], newItem = [], selectedCategory = ''produce'', selectedPriority = Medium,
     form_quantity = Finite 1, form_unit = ''pc'', searchTerm = [], filterCategory = ''all'',
     viewMode = ViewCategory, isDark = False, showAddForm = False\<rparr>"

section \<open>Item store\<close>

text \<open>
  \<^verbatim>\<open>addItem\<close> reads the clock twice: \<^verbatim>\<open>Date.now()\<close> for the id and \<^verbatim>\<open>new Date()\<close> for
  \<^verbatim>\<open>addedAt\<close>. The two readings are the arguments \<open>now_id\<close> and \<open>now_added\<close>.
\<close>

definition addItem :: "int \<Rightarrow> int \<Rightarrow> State \<Rightarrow> State" where
  "addItem now_id now_added st =
     (if trim (newItem st) = [] then st
      else
        let item = \<lparr>item_id = toString now_id,
                    name = trim (newItem st),
                    category = selectedCategory st,
                    quantity = form_quantity st,
                    unit = form_unit st,
                    completed = False,
                    priority = selectedPriority st,
                    estimatedPrice = None,
                    addedAt = TimeClip now_added\<rparr>
        in st\<lparr>items := items st @ [item], newItem := [], form_quantity := Finite 1,
               showAddForm := False\<rparr>)"

definition toggleComplete :: "string \<Rightarrow> State \<Rightarrow> State" where
  "toggleComplete i st =
     st\<lparr>items := map (\<lambda>item. if item_id item = i
                               then item\<lparr>completed := \<not> completed item\<rparr> else item)
                      (items st)\<rparr>"

definition deleteItem :: "string \<Rightarrow> State \<Rightarrow> State" where
  "deleteItem i st = st\<lparr>items := filter (\<lambda>item. item_id item \<noteq> i) (items st)\<rparr>"

definition updateQuantity :: "string \<Rightarrow> number \<Rightarrow> State \<Rightarrow> State" where
  "updateQuantity i newQuantity st =
     (if less_number newQuantity (Finite 1) then st
      else st\<lparr>items := map (\<lambda>item. if item_id item = i
                                    then item\<lparr>quantity := newQuantity\<rparr> else item)
                           (items st)\<rparr>)"

definition clearCompleted :: "State \<Rightarrow> State" where
  "clearCompleted st = st\<lparr>items := filter (\<lambda>item. \<not> completed item) (items st)\<rparr>"

section \<open>View projector\<close>

definition filteredItems :: "GroceryItem list \<Rightarrow> string \<Rightarrow> string \<Rightarrow> GroceryItem list" where
  "filteredItems its search fc =
     filter (\<lambda>item.
        let matchesSearch = includes_str (toLowerCase (name item)) (toLowerCase search);
            matchesCategory = (fc = ''all'' \<or> category item = fc)
        in matchesSearch \<and> matchesCategory) its"

text \<open>
  \<^verbatim>\<open>groupedItems\<close> is an object whose keys are enumerated in insertion order by
  \<^verbatim>\<open>Object.entries\<close>: an association list, where assigning to a key that is present replaces
  its value in place and assigning to a new key appends it.
\<close>

record Group =
  group_category :: "Category option"
  group_items :: "GroceryItem list"

definition groupedItems ::
  "GroceryItem list \<Rightarrow> string \<Rightarrow> string \<Rightarrow> ViewMode \<Rightarrow> (string \<times> Group) list" where
  "groupedItems its search fc vm =
     (if vm = ViewCategory
      then foldl (\<lambda>acc cat.
             let categoryItems =
                   filter (\<lambda>item. category item = category_id cat) (filteredItems its search fc)
             in if length categoryItems > 0
                then AList.update (category_id cat)
                       \<lparr>group_category = Some cat, group_items = categoryItems\<rparr> acc
                else acc) [] categories
      else [(''all'', \<lparr>group_category = None, group_items = filteredItems its search fc\<rparr>)])"

definition completedCount :: "GroceryItem list \<Rightarrow> nat" where
  "completedCount its = length (filter (\<lambda>item. completed item) its)"

definition totalCount :: "GroceryItem list \<Rightarrow> nat" where
  "totalCount its = length its"

text \<open>
  Division is the one of JavaScript, which yields NaN for \<^verbatim>\<open>0 / 0\<close> where the division of
  HOL yields 0.
\<close>

definition divide_count :: "nat \<Rightarrow> nat \<Rightarrow> number" where
  "divide_count a b =
     (if b = 0 then (if a = 0 then NaN else PosInfinity) else Finite (real a / real b))"

fun times_number :: "number \<Rightarrow> real \<Rightarrow> number" where
  \<comment> \<open>the product with a positive finite factor\<close>
  "times_number (Finite x) k = Finite (x * k)"
| "times_number NaN k = NaN"
| "times_number PosInfinity k = PosInfinity"
| "times_number NegInfinity k = NegInfinity"

definition completionPercentage :: "GroceryItem list \<Rightarrow> number" where
  "completionPercentage its =
     (if totalCount its > 0
      then times_number (divide_count (completedCount its) (totalCount its)) 100
      else Finite 0)"

section \<open>The add form\<close>

text \<open>
  \<^verbatim>\<open>parseInt(s)\<close> with no radix: leading white space is skipped, a sign is read, a prefix
  \<^verbatim>\<open>0x\<close> selects radix 16, and the longest run of digits is the value; with no digit the
  result is NaN, which is \<open>None\<close> here. The value is the exact integer: JavaScript gives
  the double next to it, which differs from it above \<^verbatim>\<open>2^53\<close> only.
\<close>

definition isRadixDigit :: "nat \<Rightarrow> char \<Rightarrow> bool" where
  "isRadixDigit R c =
     (let n = (of_char c :: nat)
      in (48 \<le> n \<and> n \<le> 57)
         \<or> (R = 16 \<and> ((97 \<le> n \<and> n \<le> 102) \<or> (65 \<le> n \<and> n \<le> 70))))"

definition radix_val :: "char \<Rightarrow> nat" where
  "radix_val c =
     (let n = (of_char c :: nat)
      in if n \<le> 57 then n - 48 else if n \<le> 70 then n - 55 else n - 87)"

definition parseInt :: "string \<Rightarrow> int option" where
  "parseInt s =
     (let S = dropWhile isWhiteSpace s;
          neg = startsWith S ''-'';
          S1 = (if startsWith S ''-'' \<or> startsWith S ''+'' then drop 1 S else S);
          hex = (startsWith S1 ''0x'' \<or> startsWith S1 ''0X'');
          R = (if hex then 16 else 10);
          S2 = (if hex then drop 2 S1 else S1);
          Z = takeWhile (isRadixDigit R) S2;
          mathInt = int (foldl (\<lambda>a c. a * R + radix_val c) 0 Z)
      in if Z = [] then None else Some (if neg then - mathInt else mathInt))"

definition newItem_onChange :: "string \<Rightarrow> State \<Rightarrow> State" where
  \<comment> \<open>\<^verbatim>\<open>onChange={(e) => setNewItem(e.target.value)}\<close>\<close>
  "newItem_onChange v st = st\<lparr>newItem := v\<rparr>"

definition quantity_onChange :: "string \<Rightarrow> State \<Rightarrow> State" where
  \<comment> \<open>\<^verbatim>\<open>onChange={(e) => setQuantity(parseInt(e.target.value) || 1)}\<close>: NaN and 0 are falsy\<close>
  "quantity_onChange v st =
     st\<lparr>form_quantity := (case parseInt v of
                             None \<Rightarrow> Finite 1
                           | Some n \<Rightarrow> if n = 0 then Finite 1 else Finite (of_int n))\<rparr>"

section \<open>The events of the component\<close>

text \<open>
  One constructor for each handler of the rendered elements. The buttons and fields of an
  item are rendered once for each item shown: the events of the quantity buttons carry the
  position of their item in the collection, those of the check mark and of the delete
  button carry its id. \<open>AddItemClick\<close> is the button of the form or the key Enter in the
  name field, with the two clock readings of \<^verbatim>\<open>addItem\<close>.
\<close>

datatype Event =
    NewItemChange string
  | SelectedCategoryChange string
  | QuantityChange string
  | UnitChange string
  | SelectedPriorityChange Priority
  | AddItemClick int int
  | ToggleCompleteClick string
  | QuantityMinusClick nat
  | QuantityPlusClick nat
  | DeleteClick string
  | ClearCompletedClick
  | SearchTermChange string
  | FilterCategoryChange string
  | ViewModeClick ViewMode
  | ThemeClick
  | AddFormToggleClick
  | AddFirstItemClick

fun step :: "Event \<Rightarrow> State \<Rightarrow> State" where
  "step (NewItemChange v) st = newItem_onChange v st"
| "step (SelectedCategoryChange v) st = st\<lparr>selectedCategory := v\<rparr>"
| "step (QuantityChange v) st = quantity_onChange v st"
| "step (UnitChange v) st = st\<lparr>form_unit := v\<rparr>"
| "step (SelectedPriorityChange p) st = st\<lparr>selectedPriority := p\<rparr>"
| "step (AddItemClick now_id now_added) st = addItem now_id now_added st"
| "step (ToggleCompleteClick i) st = toggleComplete i st"
| "step (QuantityMinusClick k) st =
     (if k < length (items st)
      then updateQuantity (item_id (items st ! k)) (plus_number (quantity (items st ! k)) (- 1)) st
      else st)"
| "step (QuantityPlusClick k) st =
     (if k < length (items st)
      then updateQuantity (item_id (items st ! k)) (plus_number (quantity (items st ! k)) 1) st
      else st)"
| "step (DeleteClick i) st = deleteItem i st"
| "step ClearCompletedClick st = clearCompleted st"
| "step (SearchTermChange v) st = st\<lparr>searchTerm := v\<rparr>"
| "step (FilterCategoryChange v) st = st\<lparr>filterCategory := v\<rparr>"
| "step (ViewModeClick m) st = st\<lparr>viewMode := m\<rparr>"
| "step ThemeClick st = st\<lparr>isDark := \<not> isDark st\<rparr>"
| "step AddFormToggleClick st = st\<lparr>showAddForm := \<not> showAddForm st\<rparr>"
| "step AddFirstItemClick st = st\<lparr>showAddForm := True\<rparr>"

definition run :: "Event list \<Rightarrow> State \<Rightarrow> State" where
  \<comment> \<open>the state after the events, handled one after the other\<close>
  "run evs st = foldl (\<lambda>s e. step e s) st evs"

fun clock_readings :: "Event list \<Rightarrow> int list" where
  \<comment> \<open>the readings of \<^verbatim>\<open>Date.now()\<close> that the events hand to \<^verbatim>\<open>addItem\<close>, in their order\<close>
  "clock_readings [] = []"
| "clock_readings (AddItemClick now_id now_added # evs) = now_id # clock_readings evs"
| "clock_readings (e # evs) = clock_readings evs"

fun rendered_event :: "Event \<Rightarrow> bool" where
  \<comment> \<open>the category select offers the ids of \<open>categories\<close>, and the clock is a time value\<close>
  "rendered_event (SelectedCategoryChange v) = (v \<in> set (map category_id categories))"
| "rendered_event (AddItemClick now_id now_added) = (\<bar>now_added\<bar> \<le> 8640000000000000)"
| "rendered_event e = True"

section \<open>Persistence\<close>

subsection \<open>Timestamps and their string form\<close>









fun digits_val :: "string \<Rightarrow> nat" where
  "digits_val [] = 0"
| "digits_val (c # cs) = digit_val c * 10 ^ length cs + digits_val cs"






subsection \<open>The stored entries\<close>

text \<open>
  The value that a JSON text denotes, an object with its members in the order of the text.
  \<^verbatim>\<open>JSON.stringify\<close> prints such a value and \<^verbatim>\<open>JSON.parse\<close> reads the text back to it;
  the printing and the reading of the characters are left out. A number of a JSON text is
  finite.
\<close>

datatype json =
    JNull
  | JBool bool
  | JNumber real
  | JString string
  | JArray "json list"
  | JObject "(string \<times> json) list"

text \<open>
  What \<^verbatim>\<open>localStorage.getItem\<close> returns for the items: \<^verbatim>\<open>null\<close> (\<open>None\<close>), the empty
  string, a JSON text, or a string that is no JSON text.
\<close>

datatype stored_text = EmptyText | JsonText json | OtherText

record Storage =
  modernGroceryList :: "stored_text option"
  groceryListTheme :: "string option"







definition theme_effect :: "State \<Rightarrow> Storage \<Rightarrow> Storage" where
  "theme_effect st sto = sto\<lparr>groceryListTheme := Some (if isDark st then ''dark'' else ''light'')\<rparr>"








subsection \<open>Items that are stored as they are\<close>

definition isFinite :: "number \<Rightarrow> bool" where
  "isFinite x = (case x of Finite r \<Rightarrow> True | _ \<Rightarrow> False)"

definition finite_item :: "GroceryItem \<Rightarrow> bool" where
  \<comment> \<open>the quantity and the price, if there is one, are finite numbers and \<open>addedAt\<close> is a
      time value: what the string form of the item keeps\<close>
  "finite_item item =
     (isFinite (quantity item)
      \<and> (case estimatedPrice item of None \<Rightarrow> True | Some p \<Rightarrow> isFinite p)
      \<and> (case addedAt item of
            TimeValue t \<Rightarrow> \<bar>t\<bar> \<le> 8640000000000000
          | InvalidDate \<Rightarrow> False))"

definition valid_State :: "State \<Rightarrow> bool" where
  \<comment> \<open>what the form and the buttons keep: categories among the ids of \<open>categories\<close>,
      finite quantities, and items that are stored as they are\<close>
  "valid_State st =
     (selectedCategory st \<in> set (map category_id categories)
      \<and> isFinite (form_quantity st)
      \<and> (\<forall>item \<in> set (items st).
             finite_item item \<and> category item \<in> set (map category_id categories)))"

section \<open>Properties of the strings\<close>

declare toString_nat.simps [simp del]

lemma trim_eq_Nil_iff: "trim s = [] \<longleftrightarrow> (\<forall>c\<in>set s. isWhiteSpace c)"
proof
  assume "trim s = []"
  then have all: "\<forall>x\<in>set (dropWhile isWhiteSpace s). isWhiteSpace x"
    by (simp add: trim_def dropWhile_eq_Nil_conv)
  have "dropWhile isWhiteSpace s = []"
  proof (rule ccontr)
    assume ne: "dropWhile isWhiteSpace s \<noteq> []"
    then have "\<not> isWhiteSpace (hd (dropWhile isWhiteSpace s))"
      by (rule hd_dropWhile)
    moreover from ne have "hd (dropWhile isWhiteSpace s) \<in> set (dropWhile isWhiteSpace s)"
      by (rule hd_in_set)
    ultimately show False using all by blast
  qed
  then show "\<forall>c\<in>set s. isWhiteSpace c"
    by (simp only: dropWhile_eq_Nil_conv)
next
  assume "\<forall>c\<in>set s. isWhiteSpace c"
  then have "dropWhile isWhiteSpace s = []"
    by (simp only: dropWhile_eq_Nil_conv)
  then show "trim s = []"
    by (simp only: trim_def rev.simps dropWhile.simps)
qed

lemma startsWith_iff: "startsWith s t \<longleftrightarrow> (\<exists>q. s = t @ q)"
  by (induction s t rule: startsWith.induct) auto

lemma includes_str_iff: "includes_str s t \<longleftrightarrow> (\<exists>p q. s = p @ t @ q)"
proof (induction s)
  case Nil
  then show ?case by simp
next
  case (Cons d s)
  have "(\<exists>p q. d # s = p @ t @ q) \<longleftrightarrow> (\<exists>q. d # s = t @ q) \<or> (\<exists>p q. s = p @ t @ q)"
  proof
    assume "\<exists>p q. d # s = p @ t @ q"
    then obtain p q where pq: "d # s = p @ t @ q" by blast
    show "(\<exists>q. d # s = t @ q) \<or> (\<exists>p q. s = p @ t @ q)"
    proof (cases p)
      case Nil
      with pq show ?thesis by auto
    next
      case (Cons a p')
      with pq have "s = p' @ t @ q" by simp
      then show ?thesis by blast
    qed
  next
    assume "(\<exists>q. d # s = t @ q) \<or> (\<exists>p q. s = p @ t @ q)"
    then show "\<exists>p q. d # s = p @ t @ q"
    proof
      assume "\<exists>q. d # s = t @ q"
      then obtain q where "d # s = [] @ t @ q" by auto
      then show ?thesis by blast
    next
      assume "\<exists>p q. s = p @ t @ q"
      then obtain p q where "d # s = (d # p) @ t @ q" by auto
      then show ?thesis by blast
    qed
  qed
  with Cons show ?case by (simp add: startsWith_iff)
qed

lemma toLowerCase_examples:
  "toLowerCase ''mil'' = ''mil''" "toLowerCase ''MIL'' = ''mil''" "toLowerCase ''mIl'' = ''mil''"
  "toLowerCase ''Milk'' = ''milk''" "toLowerCase ''Bread'' = ''bread''"
  by code_simp+

subsection \<open>The decimal string of a clock reading\<close>

lemma digit_char_props:
  assumes "d < 10"
  shows "isDigit (digit_char d)" and "digit_val (digit_char d) = d"
  using assms by (simp_all add: isDigit_def digit_val_def digit_char_def)

lemma digits_val_snoc: "digits_val (xs @ [c]) = digits_val xs * 10 + digit_val c"
  by (induction xs) (simp_all add: algebra_simps)

lemma digits_val_toString_nat: "digits_val (toString_nat n) = n"
proof (induction n rule: toString_nat.induct)
  case (1 n)
  show ?case
  proof (cases "n < 10")
    case True
    then show ?thesis
      by (subst toString_nat.simps) (simp add: digit_char_props)
  next
    case False
    with "1" have "digits_val (toString_nat (n div 10)) = n div 10"
      by simp
    with False show ?thesis
      by (subst toString_nat.simps) (simp add: digits_val_snoc digit_char_props)
  qed
qed

lemma isDigit_toString_nat: "list_all isDigit (toString_nat n)"
proof (induction n rule: toString_nat.induct)
  case (1 n)
  then show ?case
    by (subst toString_nat.simps) (simp add: digit_char_props)
qed

lemma toString_nat_not_minus: "toString_nat n \<noteq> CHR ''-'' # s"
proof
  assume "toString_nat n = CHR ''-'' # s"
  with isDigit_toString_nat [of n] have "isDigit CHR ''-''"
    by simp
  then show False
    by (simp add: isDigit_def)
qed

lemma toString_nat_inj: "toString_nat a = toString_nat b \<Longrightarrow> a = b"
proof -
  assume "toString_nat a = toString_nat b"
  then have "digits_val (toString_nat a) = digits_val (toString_nat b)"
    by (rule arg_cong)
  then show "a = b"
    by (simp only: digits_val_toString_nat)
qed

lemma toString_inj: "toString i = toString j \<Longrightarrow> i = j"
proof -
  assume eq: "toString i = toString j"
  have neg: "toString k = CHR ''-'' # toString_nat (nat (- k))" if "k < 0" for k
    using that by (simp only: toString_def if_True)
  have pos: "toString k = toString_nat (nat k)" if "\<not> k < 0" for k
    using that by (simp only: toString_def if_False)
  show ?thesis
  proof (cases "i < 0")
    case True
    show ?thesis
    proof (cases "j < 0")
      case True
      from eq have "toString_nat (nat (- i)) = toString_nat (nat (- j))"
        unfolding neg [OF \<open>i < 0\<close>] neg [OF True] by (rule list.inject [THEN iffD1, THEN conjunct2])
      then have "nat (- i) = nat (- j)"
        by (rule toString_nat_inj)
      with True \<open>i < 0\<close> show ?thesis by linarith
    next
      case False
      from eq have "toString_nat (nat j) = CHR ''-'' # toString_nat (nat (- i))"
        unfolding neg [OF True] pos [OF False] by (rule sym)
      with toString_nat_not_minus show ?thesis by blast
    qed
  next
    case False
    show ?thesis
    proof (cases "j < 0")
      case True
      from eq have "toString_nat (nat i) = CHR ''-'' # toString_nat (nat (- j))"
        unfolding neg [OF True] pos [OF False] .
      with toString_nat_not_minus show ?thesis by blast
    next
      case False
      from eq have "toString_nat (nat i) = toString_nat (nat j)"
        unfolding pos [OF \<open>\<not> i < 0\<close>] pos [OF False] .
      then have "nat i = nat j"
        by (rule toString_nat_inj)
      with False \<open>\<not> i < 0\<close> show ?thesis by linarith
    qed
  qed
qed

section \<open>Two states used as concrete inputs\<close>

lemma one_item_state:
  "items (addItem 1000 1000 (newItem_onChange ''Milk'' initial_State))
   = [\<lparr>item_id = ''1000'', name = ''Milk'', category = ''produce'', quantity = Finite 1,
       unit = ''pc'', completed = False, priority = Medium, estimatedPrice = None,
       addedAt = TimeValue 1000\<rparr>]"
  by code_simp

lemma two_item_state:
  "items (toggleComplete ''1000'' (addItem 1001 1001 (newItem_onChange ''Bread''
            (addItem 1000 1000 (newItem_onChange ''Milk'' initial_State)))))
   = [\<lparr>item_id = ''1000'', name = ''Milk'', category = ''produce'', quantity = Finite 1,
       unit = ''pc'', completed = True, priority = Medium, estimatedPrice = None,
       addedAt = TimeValue 1000\<rparr>,
      \<lparr>item_id = ''1001'', name = ''Bread'', category = ''produce'', quantity = Finite 1,
       unit = ''pc'', completed = False, priority = Medium, estimatedPrice = None,
       addedAt = TimeValue 1001\<rparr>]"
  by code_simp

lemma toString_1001: "toString 1001 = ''1001''"
  by code_simp

section \<open>Properties of the item store\<close>

text \<open>
  Claim C1. When the trimmed name of the form is not empty, \<open>addItem\<close> makes the collection
  one item longer: the new item comes last, is not completed, and carries the trimmed name
  and the category, quantity, unit and priority of the form. When the name is empty after
  trimming (empty or white space only), \<open>addItem\<close> changes nothing and creates no item.
\<close>

theorem addItem_appends:
  "(trim (newItem st) \<noteq> [] \<longrightarrow>
      length (items (addItem now_id now_added st)) = length (items st) + 1 \<and>
      items (addItem now_id now_added st) =
        items st @ [\<lparr>item_id = toString now_id, name = trim (newItem st),
                      category = selectedCategory st, quantity = form_quantity st,
                      unit = form_unit st, completed = False,
                      priority = selectedPriority st, estimatedPrice = None,
                      addedAt = TimeClip now_added\<rparr>])
   \<and> (trim (newItem st) = [] \<longrightarrow> addItem now_id now_added st = st)
   \<and> ((\<forall>c \<in> set (newItem st). isWhiteSpace c) \<longrightarrow> addItem now_id now_added st = st)"
  by (simp add: addItem_def trim_eq_Nil_iff [symmetric])

theorem addItem_appends_witness:
  "trim (newItem (newItem_onChange '' Milk '' initial_State)) \<noteq> []
   \<and> length (items (addItem 1000 1001 (newItem_onChange '' Milk '' initial_State))) = 1
   \<and> name (last (items (addItem 1000 1001 (newItem_onChange '' Milk '' initial_State))))
       = ''Milk''
   \<and> trim (newItem (newItem_onChange ''   '' initial_State)) = []
   \<and> addItem 1000 1001 (newItem_onChange ''   '' initial_State)
       = newItem_onChange ''   '' initial_State
   \<and> trim (newItem initial_State) = []
   \<and> addItem 1000 1001 initial_State = initial_State"
  using addItem_appends [of "newItem_onChange '' Milk '' initial_State" 1000 1001]
        addItem_appends [of "newItem_onChange ''   '' initial_State" 1000 1001]
        addItem_appends [of initial_State 1000 1001]
  by (simp add: newItem_onChange_def initial_State_def trim_def isWhiteSpace_def)

text \<open>
  Claim C5. \<open>updateQuantity i n\<close> with an integer \<open>n \<ge> 1\<close> keeps every item in its place and
  sets the quantity of the items whose id is \<open>i\<close> to exactly \<open>n\<close>, the others being
  unchanged; with \<open>n < 1\<close> (0 or -1, say) it returns the state as it was: no clamping to 1
  and no error.
\<close>

theorem updateQuantity_sets_exactly:
  fixes n :: int
  shows
  "(1 \<le> n \<longrightarrow>
      length (items (updateQuantity i (Finite (of_int n)) st)) = length (items st) \<and>
      (\<forall>k < length (items st).
         items (updateQuantity i (Finite (of_int n)) st) ! k =
           (if item_id (items st ! k) = i then (items st ! k)\<lparr>quantity := Finite (of_int n)\<rparr>
            else items st ! k)))
   \<and> (n < 1 \<longrightarrow> updateQuantity i (Finite (of_int n)) st = st)"
  by (simp add: updateQuantity_def)

theorem updateQuantity_sets_exactly_witness:
  "(1::int) \<le> 3
   \<and> length (items (updateQuantity ''1000'' (Finite 3)
               (addItem 1000 1000 (newItem_onChange ''Milk'' initial_State)))) = 1
   \<and> quantity (items (updateQuantity ''1000'' (Finite 3)
                 (addItem 1000 1000 (newItem_onChange ''Milk'' initial_State))) ! 0) = Finite 3
   \<and> updateQuantity ''1000'' (Finite 0)
         (addItem 1000 1000 (newItem_onChange ''Milk'' initial_State))
       = addItem 1000 1000 (newItem_onChange ''Milk'' initial_State)
   \<and> updateQuantity ''1000'' (Finite (- 1))
         (addItem 1000 1000 (newItem_onChange ''Milk'' initial_State))
       = addItem 1000 1000 (newItem_onChange ''Milk'' initial_State)"
  using updateQuantity_sets_exactly
          [of 3 "''1000''" "addItem 1000 1000 (newItem_onChange ''Milk'' initial_State)"]
        updateQuantity_sets_exactly
          [of 0 "''1000''" "addItem 1000 1000 (newItem_onChange ''Milk'' initial_State)"]
        updateQuantity_sets_exactly
          [of "- 1" "''1000''" "addItem 1000 1000 (newItem_onChange ''Milk'' initial_State)"]
  by (simp add: one_item_state)

text \<open>
  Claim C6. \<open>clearCompleted\<close> keeps exactly the items that are not completed, in their
  original order (an item of the collection survives if and only if it is not completed),
  and applying it a second time changes nothing.
\<close>

theorem clearCompleted_idempotent:
  "items (clearCompleted st) = filter (\<lambda>item. \<not> completed item) (items st)
   \<and> (\<forall>item \<in> set (items st).
         item \<in> set (items (clearCompleted st)) \<longleftrightarrow> \<not> completed item)
   \<and> clearCompleted (clearCompleted st) = clearCompleted st"
  by (auto simp: clearCompleted_def)

theorem clearCompleted_idempotent_witness:
  "map name (items (clearCompleted
      (toggleComplete ''1000'' (addItem 1001 1001 (newItem_onChange ''Bread''
         (addItem 1000 1000 (newItem_onChange ''Milk'' initial_State))))))) = [''Bread'']
   \<and> clearCompleted (clearCompleted
        (toggleComplete ''1000'' (addItem 1001 1001 (newItem_onChange ''Bread''
           (addItem 1000 1000 (newItem_onChange ''Milk'' initial_State))))))
     = clearCompleted
        (toggleComplete ''1000'' (addItem 1001 1001 (newItem_onChange ''Bread''
           (addItem 1000 1000 (newItem_onChange ''Milk'' initial_State)))))"
  using clearCompleted_idempotent
          [of "toggleComplete ''1000'' (addItem 1001 1001 (newItem_onChange ''Bread''
                 (addItem 1000 1000 (newItem_onChange ''Milk'' initial_State))))"]
  by (simp add: two_item_state)

lemma map_item_id_update:
  "(\<And>x. item_id (g x) = item_id x) \<Longrightarrow> map item_id (map g xs) = map item_id xs"
  by (induction xs) auto

lemma step_ids:
  assumes "distinct (map item_id (items st))"
    and "set (map item_id (items st)) \<subseteq> toString ` T"
    and "set (clock_readings [e]) \<inter> T = {}"
  shows "distinct (map item_id (items (step e st)))"
    and "set (map item_id (items (step e st))) \<subseteq> toString ` (T \<union> set (clock_readings [e]))"
proof -
  have fresh: "toString n \<notin> set (map item_id (items st))" if "n \<notin> T" for n
  proof
    assume "toString n \<in> set (map item_id (items st))"
    with assms(2) obtain m where "m \<in> T" "toString n = toString m" by auto
    with toString_inj that show False by blast
  qed
  show "distinct (map item_id (items (step e st)))"
    using assms(1,3) fresh
    by (cases e)
       (simp_all add: addItem_def toggleComplete_def updateQuantity_def deleteItem_def
          clearCompleted_def newItem_onChange_def quantity_onChange_def map_item_id_update
          distinct_map_filter del: map_map)
  show "set (map item_id (items (step e st))) \<subseteq> toString ` (T \<union> set (clock_readings [e]))"
    using assms(2)
    by (cases e)
       (auto simp add: addItem_def toggleComplete_def updateQuantity_def deleteItem_def
          clearCompleted_def newItem_onChange_def quantity_onChange_def map_item_id_update
          simp del: map_map)
qed

lemma clock_readings_Cons:
  "set (clock_readings (e # evs)) = set (clock_readings [e]) \<union> set (clock_readings evs)"
  "distinct (clock_readings (e # evs)) \<Longrightarrow> distinct (clock_readings evs)"
  "distinct (clock_readings (e # evs)) \<Longrightarrow>
     set (clock_readings [e]) \<inter> set (clock_readings evs) = {}"
  by (cases e; simp)+

lemma run_Cons: "run (e # evs) st = run evs (step e st)"
  by (simp add: run_def)

lemma run_ids:
  "distinct (map item_id (items st)) \<Longrightarrow> set (map item_id (items st)) \<subseteq> toString ` T \<Longrightarrow>
   distinct (clock_readings evs) \<Longrightarrow> set (clock_readings evs) \<inter> T = {} \<Longrightarrow>
   distinct (map item_id (items (run evs st)))"
proof (induction evs arbitrary: st T)
  case Nil
  then show ?case by (simp add: run_def)
next
  case (Cons e evs)
  have s: "set (clock_readings (e # evs)) = set (clock_readings [e]) \<union> set (clock_readings evs)"
    by (rule clock_readings_Cons(1))
  from Cons.prems(4) s have e: "set (clock_readings [e]) \<inter> T = {}"
    by blast
  from Cons.prems(3) have d: "distinct (clock_readings evs)"
    by (rule clock_readings_Cons(2))
  from Cons.prems(4) s clock_readings_Cons(3) [OF Cons.prems(3)]
  have i: "set (clock_readings evs) \<inter> (T \<union> set (clock_readings [e])) = {}"
    by blast
  from step_ids [OF Cons.prems(1,2) e] Cons.IH [OF _ _ d i] show ?case
    by (simp add: run_Cons)
qed

text \<open>
  Claim C9, as the code has it. The id of a new item is the decimal string of the clock
  reading in milliseconds. Start from a collection whose ids are the strings of pairwise
  different clock readings (the empty collection, say) and handle any events: when the
  clock readings of the adds differ from one another and from those of the start, the ids
  of the collection reached are pairwise distinct.
\<close>

theorem ids_distinct_reachable:
  assumes "map item_id (items st) = map toString ts"
    and "distinct (ts @ clock_readings evs)"
  shows "distinct (map item_id (items (run evs st)))"
proof -
  have "inj toString"
    by (rule injI) (rule toString_inj)
  then have "distinct (map toString ts)"
    using assms(2) by (simp add: distinct_map inj_on_def)
  with assms(1) have "distinct (map item_id (items st))"
    by simp
  moreover from assms(1) have "set (map item_id (items st)) \<subseteq> toString ` set ts"
    by auto
  ultimately show ?thesis
    using assms(2) by (intro run_ids [where T = "set ts"]) auto
qed

lemma milk_bread_ids:
  "map item_id (items (run [NewItemChange ''Milk'', AddItemClick 1000 1000,
                            NewItemChange ''Bread'', AddItemClick 1001 1002,
                            ToggleCompleteClick ''1000''] initial_State))
   = [''1000'', ''1001'']"
  by code_simp

theorem ids_distinct_reachable_witness:
  "distinct [1000, 1001 :: int]
   \<and> map item_id (items (run [NewItemChange ''Milk'', AddItemClick 1000 1000,
                              NewItemChange ''Bread'', AddItemClick 1001 1002,
                              ToggleCompleteClick ''1000''] initial_State))
       = [''1000'', ''1001'']
   \<and> distinct (map item_id (items (run [NewItemChange ''Milk'', AddItemClick 1000 1000,
                                        NewItemChange ''Bread'', AddItemClick 1001 1002,
                                        ToggleCompleteClick ''1000''] initial_State)))"
proof -
  let ?evs = "[NewItemChange ''Milk'', AddItemClick 1000 1000,
               NewItemChange ''Bread'', AddItemClick 1001 1002, ToggleCompleteClick ''1000'']"
  have start: "map item_id (items initial_State) = map toString []"
    by (simp add: initial_State_def)
  have readings: "distinct ([] @ clock_readings ?evs)"
    by simp
  have d: "distinct [1000, 1001 :: int]"
    by simp
  from ids_distinct_reachable [OF start readings]
  have "distinct (map item_id (items (run ?evs initial_State)))" .
  with d milk_bread_ids show ?thesis
    by (simp only: simp_thms)
qed

text \<open>
  Claim C9, as it is stated, fails: two items added at the same clock reading (within one
  millisecond) get the same id.
\<close>

theorem same_millisecond_same_id:
  "\<not> distinct (map item_id (items
       (addItem 1000 1000 (newItem_onChange ''Bread''
         (addItem 1000 1000 (newItem_onChange ''Milk'' initial_State))))))"
  by code_simp

text \<open>
  No operation of the store puts a quantity below 1 into the collection, and \<open>addItem\<close>
  puts none there when the quantity of the form is not below 1.
\<close>

lemma quantity_invariant_store:
  assumes "\<forall>item \<in> set (items st). \<not> less_number (quantity item) (Finite 1)"
  shows "\<forall>item \<in> set (items (toggleComplete i st)). \<not> less_number (quantity item) (Finite 1)"
    and "\<forall>item \<in> set (items (updateQuantity i n st)). \<not> less_number (quantity item) (Finite 1)"
    and "\<forall>item \<in> set (items (deleteItem i st)). \<not> less_number (quantity item) (Finite 1)"
    and "\<forall>item \<in> set (items (clearCompleted st)). \<not> less_number (quantity item) (Finite 1)"
    and "\<not> less_number (form_quantity st) (Finite 1) \<Longrightarrow>
           \<forall>item \<in> set (items (addItem now_id now_added st)).
              \<not> less_number (quantity item) (Finite 1)"
  using assms
  by (auto simp: toggleComplete_def updateQuantity_def deleteItem_def clearCompleted_def
        addItem_def)

text \<open>
  Claim C2 asks that no operation stores a quantity below 1, the quantity entry of the form
  included. The entry \<^verbatim>\<open>parseInt(e.target.value) || 1\<close> replaces NaN and 0 by 1 and lets a
  negative number through: with \<^verbatim>\<open>-5\<close> typed into the field, \<open>addItem\<close> stores an item of
  quantity -5.
\<close>

theorem negative_quantity_stored:
  "map quantity (items (addItem 1000 1000
      (quantity_onChange ''-5'' (newItem_onChange ''Milk'' initial_State)))) = [Finite (- 5)]"
  by code_simp

section \<open>What the form and the buttons keep\<close>

lemma valid_initial_State: "valid_State initial_State"
  by (simp add: valid_State_def initial_State_def isFinite_def categories_def)

lemma finite_item_updates:
  "finite_item (item\<lparr>completed := b\<rparr>) = finite_item item"
  "finite_item item \<Longrightarrow> finite_item (item\<lparr>quantity := Finite r\<rparr>)"
  by (simp_all add: finite_item_def isFinite_def)

lemma valid_updateQuantity:
  assumes "valid_State st" "isFinite q"
  shows "valid_State (updateQuantity i q st)"
proof -
  from assms(2) obtain r where "q = Finite r"
    by (cases q) (simp_all add: isFinite_def)
  with assms(1) show ?thesis
    by (auto simp: valid_State_def updateQuantity_def finite_item_updates)
qed

lemma valid_addItem:
  assumes "valid_State st" "\<bar>now_added\<bar> \<le> 8640000000000000"
  shows "valid_State (addItem now_id now_added st)"
  using assms
  by (auto simp: valid_State_def addItem_def finite_item_def isFinite_def TimeClip_def)

lemma isFinite_plus_number: "isFinite q \<Longrightarrow> isFinite (plus_number q k)"
  by (cases q) (simp_all add: isFinite_def)

lemma valid_step:
  assumes "rendered_event e" "valid_State st"
  shows "valid_State (step e st)"
proof (cases e)
  case (AddItemClick a b)
  with assms valid_addItem show ?thesis by simp
next
  case (QuantityMinusClick k)
  show ?thesis
  proof (cases "k < length (items st)")
    case True
    with assms(2) have "isFinite (quantity (items st ! k))"
      by (simp add: valid_State_def finite_item_def)
    with QuantityMinusClick True assms(2) show ?thesis
      by (simp add: valid_updateQuantity isFinite_plus_number)
  next
    case False
    with QuantityMinusClick assms(2) show ?thesis by simp
  qed
next
  case (QuantityPlusClick k)
  show ?thesis
  proof (cases "k < length (items st)")
    case True
    with assms(2) have "isFinite (quantity (items st ! k))"
      by (simp add: valid_State_def finite_item_def)
    with QuantityPlusClick True assms(2) show ?thesis
      by (simp add: valid_updateQuantity isFinite_plus_number)
  next
    case False
    with QuantityPlusClick assms(2) show ?thesis by simp
  qed
next
  case (QuantityChange v)
  with assms(2) show ?thesis
    by (simp add: valid_State_def quantity_onChange_def isFinite_def split: option.splits)
next
  case (ToggleCompleteClick i)
  with assms(2) show ?thesis
    by (auto simp: valid_State_def toggleComplete_def finite_item_updates)
next
  case (DeleteClick i)
  with assms(2) show ?thesis
    by (auto simp: valid_State_def deleteItem_def)
next
  case ClearCompletedClick
  with assms(2) show ?thesis
    by (auto simp: valid_State_def clearCompleted_def)
qed (use assms in \<open>simp_all add: valid_State_def newItem_onChange_def\<close>)

lemma valid_run:
  "\<forall>e \<in> set evs. rendered_event e \<Longrightarrow> valid_State st \<Longrightarrow> valid_State (run evs st)"
  by (induction evs arbitrary: st) (simp_all add: run_def valid_step)

section \<open>Properties of the view projector\<close>

text \<open>
  Claim C4. The filter stage keeps exactly the items whose name, in lower case, contains the
  search term, in lower case, as a substring, and whose category is the filter category
  unless that is \<^verbatim>\<open>all\<close>. Against an item named \<^verbatim>\<open>Milk\<close> and one named \<^verbatim>\<open>Bread\<close>, each of the
  terms \<^verbatim>\<open>mil\<close>, \<^verbatim>\<open>MIL\<close> and \<^verbatim>\<open>mIl\<close> keeps only \<^verbatim>\<open>Milk\<close>.
\<close>

theorem filteredItems_keeps:
  "filteredItems its search fc =
     filter (\<lambda>item. (\<exists>p q. toLowerCase (name item) = p @ toLowerCase search @ q)
                    \<and> (fc = ''all'' \<or> category item = fc)) its
   \<and> (\<forall>milk bread. name milk = ''Milk'' \<and> name bread = ''Bread'' \<longrightarrow>
         filteredItems [milk, bread] ''mil'' ''all'' = [milk]
       \<and> filteredItems [milk, bread] ''MIL'' ''all'' = [milk]
       \<and> filteredItems [milk, bread] ''mIl'' ''all'' = [milk])"
proof -
  have "filteredItems its search fc =
     filter (\<lambda>item. (\<exists>p q. toLowerCase (name item) = p @ toLowerCase search @ q)
                    \<and> (fc = ''all'' \<or> category item = fc)) its"
    by (simp add: filteredItems_def includes_str_iff [symmetric])
  moreover have "filteredItems [milk, bread] t ''all'' = [milk]"
    if "name milk = ''Milk''" "name bread = ''Bread''" "toLowerCase t = ''mil''" for milk bread t
    using that by (simp add: filteredItems_def toLowerCase_examples)
  ultimately show ?thesis
    by (simp add: toLowerCase_examples)
qed

theorem filteredItems_keeps_witness:
  "name \<lparr>item_id = ''1'', name = ''Milk'', category = ''dairy'', quantity = Finite 1, unit = ''l'',
         completed = False, priority = Medium, estimatedPrice = None,
         addedAt = TimeValue 1\<rparr> = ''Milk''
   \<and> name \<lparr>item_id = ''2'', name = ''Bread'', category = ''bakery'', quantity = Finite 1,
           unit = ''pc'', completed = False, priority = Low, estimatedPrice = None,
           addedAt = TimeValue 2\<rparr> = ''Bread''
   \<and> filteredItems
       [\<lparr>item_id = ''1'', name = ''Milk'', category = ''dairy'', quantity = Finite 1, unit = ''l'',
         completed = False, priority = Medium, estimatedPrice = None, addedAt = TimeValue 1\<rparr>,
        \<lparr>item_id = ''2'', name = ''Bread'', category = ''bakery'', quantity = Finite 1, unit = ''pc'',
         completed = False, priority = Low, estimatedPrice = None, addedAt = TimeValue 2\<rparr>]
       ''MIL'' ''all''
     = [\<lparr>item_id = ''1'', name = ''Milk'', category = ''dairy'', quantity = Finite 1, unit = ''l'',
         completed = False, priority = Medium, estimatedPrice = None, addedAt = TimeValue 1\<rparr>]"
proof -
  let ?milk = "\<lparr>item_id = ''1'', name = ''Milk'', category = ''dairy'', quantity = Finite 1,
       unit = ''l'', completed = False, priority = Medium, estimatedPrice = None,
       addedAt = TimeValue 1\<rparr>"
  let ?bread = "\<lparr>item_id = ''2'', name = ''Bread'', category = ''bakery'', quantity = Finite 1,
       unit = ''pc'', completed = False, priority = Low, estimatedPrice = None,
       addedAt = TimeValue 2\<rparr>"
  have names: "name ?milk = ''Milk'' \<and> name ?bread = ''Bread''"
    by simp
  from filteredItems_keeps [of "[]" "[]" "[]", THEN conjunct2, THEN spec, THEN spec, THEN mp,
         OF names]
  have "filteredItems [?milk, ?bread] ''MIL'' ''all'' = [?milk]"
    by (rule conjunct2 [THEN conjunct1])
  with names show ?thesis
    by (simp only:)
qed

lemma update_fresh: "k \<notin> fst ` set al \<Longrightarrow> AList.update k v al = al @ [(k, v)]"
  by (induction al) auto

lemma foldl_groups:
  "distinct (map category_id cs) \<Longrightarrow> fst ` set acc \<inter> set (map category_id cs) = {} \<Longrightarrow>
   foldl (\<lambda>acc cat.
             let categoryItems = filter (\<lambda>item. category item = category_id cat) F
             in if length categoryItems > 0
                then AList.update (category_id cat)
                       \<lparr>group_category = Some cat, group_items = categoryItems\<rparr> acc
                else acc) acc cs
   = acc @ map (\<lambda>cat. (category_id cat,
                        \<lparr>group_category = Some cat,
                         group_items = filter (\<lambda>item. category item = category_id cat) F\<rparr>))
             (filter (\<lambda>cat. \<exists>item \<in> set F. category item = category_id cat) cs)"
proof (induction cs arbitrary: acc)
  case Nil
  then show ?case by simp
next
  case (Cons c cs)
  let ?g = "\<lparr>group_category = Some c,
             group_items = filter (\<lambda>item. category item = category_id c) F\<rparr>"
  show ?case
  proof (cases "\<exists>item \<in> set F. category item = category_id c")
    case True
    from Cons.prems have fresh: "category_id c \<notin> fst ` set acc" by auto
    from Cons.prems True
    have disj: "fst ` set (acc @ [(category_id c, ?g)]) \<inter> set (map category_id cs) = {}"
      by auto
    from Cons.prems have "distinct (map category_id cs)" by simp
    from Cons.IH [OF this disj] True fresh show ?thesis
      by (simp add: update_fresh filter_empty_conv)
  next
    case False
    from Cons.prems have "distinct (map category_id cs)"
      and "fst ` set acc \<inter> set (map category_id cs) = {}" by auto
    from Cons.IH [OF this] False show ?thesis
      by (simp add: filter_empty_conv)
  qed
qed

lemma distinct_category_ids: "distinct (map category_id categories)"
  by (simp add: categories_def)

lemma mset_filter_keys:
  "distinct ks \<Longrightarrow>
   mset (concat (map (\<lambda>k. filter (\<lambda>x. f x = k) xs) ks)) = mset (filter (\<lambda>x. f x \<in> set ks) xs)"
proof (induction ks)
  case Nil
  then show ?case by simp
next
  case (Cons k ks)
  then have k: "k \<notin> set ks" and d: "distinct ks" by simp_all
  have "mset (filter (\<lambda>x. f x = k) xs) + mset (filter (\<lambda>x. f x \<in> set ks) xs)
        = mset (filter (\<lambda>x. f x \<in> set (k # ks)) xs)"
    using k by (induction xs) auto
  with Cons.IH [OF d] show ?case by simp
qed

lemma concat_nonempty_groups:
  "concat (map g (filter (\<lambda>c. g c \<noteq> []) cs)) = concat (map g cs)"
  by (induction cs) auto

text \<open>
  Claim C3. In the view mode \<^verbatim>\<open>category\<close> the groups are those of the categories of the
  fixed list (produce, dairy, meat, bakery, pantry, frozen, household, other) that have an
  item among the filtered ones, in the order of that list; a group carries its category and
  the filtered items of that category in their original order. The groups partition the
  filtered items: with the categories of the items among the eight, as the category select
  of the form makes them, every filtered item is in exactly one group.
\<close>

theorem groupedItems_by_category:
  "groupedItems its search fc ViewCategory =
     map (\<lambda>cat. (category_id cat,
                  \<lparr>group_category = Some cat,
                   group_items = filter (\<lambda>item. category item = category_id cat)
                                   (filteredItems its search fc)\<rparr>))
         (filter (\<lambda>cat. \<exists>item \<in> set (filteredItems its search fc).
                           category item = category_id cat) categories)
   \<and> map category_id categories
       = [''produce'', ''dairy'', ''meat'', ''bakery'', ''pantry'', ''frozen'', ''household'',
          ''other'']
   \<and> ((\<forall>item \<in> set its. category item \<in> set (map category_id categories)) \<longrightarrow>
        mset (concat (map (\<lambda>g. group_items (snd g))
                        (groupedItems its search fc ViewCategory)))
          = mset (filteredItems its search fc))
   \<and> ((\<forall>e \<in> set evs. rendered_event e) \<longrightarrow>
        mset (concat (map (\<lambda>g. group_items (snd g))
                        (groupedItems (items (run evs initial_State)) search fc ViewCategory)))
          = mset (filteredItems (items (run evs initial_State)) search fc))"
proof -
  have grouped: "groupedItems xs search fc ViewCategory =
     map (\<lambda>cat. (category_id cat,
                  \<lparr>group_category = Some cat,
                   group_items = filter (\<lambda>item. category item = category_id cat)
                                   (filteredItems xs search fc)\<rparr>))
         (filter (\<lambda>cat. \<exists>item \<in> set (filteredItems xs search fc).
                           category item = category_id cat) categories)" for xs
    using foldl_groups [OF distinct_category_ids, of "[]" "filteredItems xs search fc"]
    by (simp add: groupedItems_def)
  have ids: "map category_id categories
       = [''produce'', ''dairy'', ''meat'', ''bakery'', ''pantry'', ''frozen'', ''household'',
          ''other'']"
    by (simp add: categories_def)
  have part: "mset (concat (map (\<lambda>g. group_items (snd g))
                        (groupedItems xs search fc ViewCategory)))
                = mset (filteredItems xs search fc)"
    if all: "\<forall>item \<in> set xs. category item \<in> set (map category_id categories)" for xs
  proof -
    let ?F = "filteredItems xs search fc"
    let ?sel = "\<lambda>cat. filter (\<lambda>item. category item = category_id cat) ?F"
    have nonempty: "(\<lambda>cat. \<exists>item \<in> set ?F. category item = category_id cat)
                      = (\<lambda>cat. ?sel cat \<noteq> [])"
      by (auto simp: filter_empty_conv)
    have "concat (map (\<lambda>g. group_items (snd g)) (groupedItems xs search fc ViewCategory))
          = concat (map ?sel (filter (\<lambda>cat. ?sel cat \<noteq> []) categories))"
      unfolding grouped nonempty by (simp add: o_def)
    also have "\<dots> = concat (map ?sel categories)"
      by (rule concat_nonempty_groups)
    also have "\<dots> = concat (map (\<lambda>k. filter (\<lambda>item. category item = k) ?F)
                               (map category_id categories))"
      by (simp add: o_def)
    finally have "mset (concat (map (\<lambda>g. group_items (snd g))
                        (groupedItems xs search fc ViewCategory)))
          = mset (filter (\<lambda>item. category item \<in> set (map category_id categories)) ?F)"
      using mset_filter_keys [OF distinct_category_ids, of category ?F] by (simp only:)
    moreover have "set ?F \<subseteq> set xs"
      by (auto simp: filteredItems_def)
    with all have "filter (\<lambda>item. category item \<in> set (map category_id categories)) ?F = ?F"
      by (auto simp: filter_id_conv)
    ultimately show ?thesis by (simp only:)
  qed
  have reached: "mset (concat (map (\<lambda>g. group_items (snd g))
                        (groupedItems (items (run evs initial_State)) search fc ViewCategory)))
                = mset (filteredItems (items (run evs initial_State)) search fc)"
    if "\<forall>e \<in> set evs. rendered_event e"
  proof -
    from that have "valid_State (run evs initial_State)"
      using valid_initial_State by (rule valid_run)
    then have "\<forall>item \<in> set (items (run evs initial_State)).
                 category item \<in> set (map category_id categories)"
      by (simp add: valid_State_def)
    then show ?thesis
      by (rule part)
  qed
  from grouped [of its] ids part [of its] reached show ?thesis by blast
qed

theorem groupedItems_by_category_witness:
  "map (\<lambda>g. (fst g, map name (group_items (snd g))))
        (groupedItems
           [\<lparr>item_id = ''1'', name = ''Milk'', category = ''dairy'', quantity = Finite 1,
             unit = ''l'', completed = False, priority = Medium,
             estimatedPrice = None, addedAt = TimeValue 1\<rparr>,
            \<lparr>item_id = ''2'', name = ''Bread'', category = ''bakery'', quantity = Finite 1,
             unit = ''pc'', completed = False, priority = Low,
             estimatedPrice = None, addedAt = TimeValue 2\<rparr>] [] ''all'' ViewCategory)
      = [(''dairy'', [''Milk'']), (''bakery'', [''Bread''])]
   \<and> mset (concat (map (\<lambda>g. group_items (snd g))
        (groupedItems
           [\<lparr>item_id = ''1'', name = ''Milk'', category = ''dairy'', quantity = Finite 1,
             unit = ''l'', completed = False, priority = Medium,
             estimatedPrice = None, addedAt = TimeValue 1\<rparr>,
            \<lparr>item_id = ''2'', name = ''Bread'', category = ''bakery'', quantity = Finite 1,
             unit = ''pc'', completed = False, priority = Low,
             estimatedPrice = None, addedAt = TimeValue 2\<rparr>] [] ''all'' ViewCategory)))
      = mset
           [\<lparr>item_id = ''1'', name = ''Milk'', category = ''dairy'', quantity = Finite 1,
             unit = ''l'', completed = False, priority = Medium,
             estimatedPrice = None, addedAt = TimeValue 1\<rparr>,
            \<lparr>item_id = ''2'', name = ''Bread'', category = ''bakery'', quantity = Finite 1,
             unit = ''pc'', completed = False, priority = Low,
             estimatedPrice = None, addedAt = TimeValue 2\<rparr>]
   \<and> mset (concat (map (\<lambda>g. group_items (snd g))
          (groupedItems
             (items (run [NewItemChange ''Milk'', SelectedCategoryChange ''dairy'',
                          AddItemClick 1000 1000] initial_State)) [] ''all'' ViewCategory)))
      = mset (filteredItems
             (items (run [NewItemChange ''Milk'', SelectedCategoryChange ''dairy'',
                          AddItemClick 1000 1000] initial_State)) [] ''all'')"
proof -
  let ?its = "[\<lparr>item_id = ''1'', name = ''Milk'', category = ''dairy'', quantity = Finite 1,
             unit = ''l'', completed = False, priority = Medium,
             estimatedPrice = None, addedAt = TimeValue 1\<rparr>,
            \<lparr>item_id = ''2'', name = ''Bread'', category = ''bakery'', quantity = Finite 1,
             unit = ''pc'', completed = False, priority = Low,
             estimatedPrice = None, addedAt = TimeValue 2\<rparr>]"
  have cats: "\<forall>item \<in> set ?its. category item \<in> set (map category_id categories)"
    by (simp add: categories_def)
  have filtered: "filteredItems ?its [] ''all'' = ?its"
    by (simp add: filteredItems_def toLowerCase_def)
  note inst = groupedItems_by_category [of ?its "[]" "''all''" "[]"]
  from inst have groups: "map (\<lambda>g. (fst g, map name (group_items (snd g))))
        (groupedItems ?its [] ''all'' ViewCategory)
      = [(''dairy'', [''Milk'']), (''bakery'', [''Bread''])]"
    by (simp add: filtered categories_def)
  from inst cats have "mset (concat (map (\<lambda>g. group_items (snd g))
        (groupedItems ?its [] ''all'' ViewCategory))) = mset (filteredItems ?its [] ''all'')"
    by blast
  then have direct: "mset (concat (map (\<lambda>g. group_items (snd g))
        (groupedItems ?its [] ''all'' ViewCategory))) = mset ?its"
    by (simp only: filtered)
  note direct
  moreover have "\<forall>e \<in> set [NewItemChange ''Milk'', SelectedCategoryChange ''dairy'',
                            AddItemClick 1000 1000]. rendered_event e"
    by (simp add: categories_def)
  with groupedItems_by_category
         [of "[]" "[]" "''all''"
             "[NewItemChange ''Milk'', SelectedCategoryChange ''dairy'', AddItemClick 1000 1000]"]
  have "mset (concat (map (\<lambda>g. group_items (snd g))
          (groupedItems
             (items (run [NewItemChange ''Milk'', SelectedCategoryChange ''dairy'',
                          AddItemClick 1000 1000] initial_State)) [] ''all'' ViewCategory)))
        = mset (filteredItems
             (items (run [NewItemChange ''Milk'', SelectedCategoryChange ''dairy'',
                          AddItemClick 1000 1000] initial_State)) [] ''all'')"
    by blast
  ultimately show ?thesis
    using groups by (simp only: simp_thms)
qed

text \<open>
  Claim C10. In every view mode other than \<^verbatim>\<open>category\<close> (\<^verbatim>\<open>all\<close>, and \<^verbatim>\<open>priority\<close>, which the
  type of the view mode admits) there is exactly one group, under the key \<^verbatim>\<open>all\<close>, with no
  category, holding the filtered items in their order.
\<close>

theorem groupedItems_single_group:
  "vm \<noteq> ViewCategory \<Longrightarrow>
     groupedItems its search fc vm
       = [(''all'', \<lparr>group_category = None, group_items = filteredItems its search fc\<rparr>)]"
  by (simp add: groupedItems_def)

theorem groupedItems_single_group_witness:
  "ViewPriority \<noteq> ViewCategory
   \<and> groupedItems (items (addItem 1000 1000 (newItem_onChange ''Milk'' initial_State)))
        ''mi'' ''all'' ViewPriority
     = [(''all'', \<lparr>group_category = None,
                   group_items = items (addItem 1000 1000
                                   (newItem_onChange ''Milk'' initial_State))\<rparr>)]"
proof -
  have ne: "ViewPriority \<noteq> ViewCategory"
    by simp
  have "filteredItems (items (addItem 1000 1000 (newItem_onChange ''Milk'' initial_State)))
          ''mi'' ''all''
        = items (addItem 1000 1000 (newItem_onChange ''Milk'' initial_State))"
    by code_simp
  with groupedItems_single_group
         [OF ne, of "items (addItem 1000 1000 (newItem_onChange ''Milk'' initial_State))"
            "''mi''" "''all''"] ne
  show ?thesis
    by (simp only: simp_thms)
qed

text \<open>
  Claim C7. \<open>completedCount\<close> is the number of positions of the collection that hold a
  completed item and \<open>totalCount\<close> is the number of items. With at least one item the
  percentage is \<open>completedCount / totalCount * 100\<close>; for the empty collection it is the
  number 0; it is never NaN.
\<close>

theorem completionPercentage_value:
  "completedCount its = card {k. k < length its \<and> completed (its ! k)}
   \<and> totalCount its = length its
   \<and> (totalCount its > 0 \<longrightarrow>
        completionPercentage its
          = Finite (real (completedCount its) / real (totalCount its) * 100))
   \<and> (its = [] \<longrightarrow> completionPercentage its = Finite 0)
   \<and> completionPercentage its \<noteq> NaN"
  by (simp add: completedCount_def totalCount_def completionPercentage_def divide_count_def
        length_filter_conv_card)

theorem completionPercentage_value_witness:
  "totalCount (items (toggleComplete ''1000'' (addItem 1001 1001 (newItem_onChange ''Bread''
            (addItem 1000 1000 (newItem_onChange ''Milk'' initial_State)))))) > 0
   \<and> completionPercentage
        (items (toggleComplete ''1000'' (addItem 1001 1001 (newItem_onChange ''Bread''
            (addItem 1000 1000 (newItem_onChange ''Milk'' initial_State)))))) = Finite 50
   \<and> completionPercentage [] = Finite 0"
  using completionPercentage_value
          [of "items (toggleComplete ''1000'' (addItem 1001 1001 (newItem_onChange ''Bread''
                 (addItem 1000 1000 (newItem_onChange ''Milk'' initial_State)))))"]
        completionPercentage_value [of "[]"]
  by (simp add: two_item_state completedCount_def totalCount_def)

section \<open>Properties of the persistence\<close>

subsection \<open>The string form of a timestamp reads back\<close>



















subsection \<open>Saving and loading\<close>









end
